theory Spec2Isabelle
  imports Main "HOL-Library.Word"
begin

section \<open>The event gateway's entry point: \<open>cmd/event-gateway/main.go\<close>\<close>

subsection \<open>The logger configuration\<close>

text \<open>
  \<open>zapcore.Level\<close> is an \<open>int8\<close>. Of \<open>zap.Config\<close> the fields that \<open>logger\<close>
  writes are kept; \<open>Sampling\<close> is a pointer (\<open>None\<close> is \<open>nil\<close>). The two encoder
  configurations come from zap's constructors and are kept as tags;
  \<open>ZeroEncoderConfig\<close> is the zero value of a field never assigned.
\<close>

type_synonym level = "8 word"

record SamplingConfig =
  Initial :: int
  Thereafter :: int

datatype EncoderConfig =
    ZeroEncoderConfig
  | ProductionEncoderConfig
  | DevelopmentEncoderConfig

record Config =
  Level :: level
  Development :: bool
  Sampling :: "SamplingConfig option"
  Encoding :: string
  EncoderConfig :: EncoderConfig
  OutputPaths :: "string list"
  ErrorOutputPaths :: "string list"
  DisableCaller :: bool
  DisableStacktrace :: bool

definition consoleEncoding :: string where
  "consoleEncoding = ''console''"

definition jsonEncoding :: string where
  "jsonEncoding = ''json''"

definition logger :: "bool \<Rightarrow> level \<Rightarrow> string \<Rightarrow> Config" where
  "logger dev lvl format =
    (let cfg0 = \<lparr> Level = lvl,
                   Development = False,
                   Sampling = Some \<lparr> Initial = 100, Thereafter = 100 \<rparr>,
                   Encoding = ''json'',
                   EncoderConfig = ZeroEncoderConfig,
                   OutputPaths = [''stderr''],
                   ErrorOutputPaths = [''stderr''],
                   DisableCaller = False,
                   DisableStacktrace = False \<rparr>;
         cfg1 = (if dev then cfg0\<lparr> Sampling := None, Encoding := consoleEncoding \<rparr>
                 else cfg0);
         cfg2 = (if format \<noteq> ''''
                 then (if format = ''text'' then cfg1\<lparr> Encoding := consoleEncoding \<rparr>
                       else if format = jsonEncoding then cfg1\<lparr> Encoding := jsonEncoding \<rparr>
                       else cfg1\<lparr> Encoding := '''' \<rparr>)
                 else cfg1);
         cfg3 = (if Encoding cfg2 = jsonEncoding
                 then cfg2\<lparr> EncoderConfig := ProductionEncoderConfig \<rparr> else cfg2);
         cfg4 = (if Encoding cfg3 = consoleEncoding
                 then cfg3\<lparr> EncoderConfig := DevelopmentEncoderConfig \<rparr> else cfg3)
     in cfg4\<lparr> DisableCaller := True, DisableStacktrace := True \<rparr>)"

subsection \<open>Flags, the packages \<open>main\<close> calls, and what \<open>main\<close> does\<close>

text \<open>The command-line flags, after \<open>flag.Parse()\<close>.\<close>

record flags =
  showVersion :: bool
  logLevel :: level
  logFormat :: string
  dbHosts :: string
  developmentMode :: bool
  embedPeerAddr :: string
  embedCliAddr :: string
  embedDataDir :: string
  configPort :: nat
  configTLSCrt :: string
  configTLSKey :: string
  eventsPort :: nat
  eventsTLSCrt :: string
  eventsTLSKey :: string
  plugins :: "string list"

text \<open>
  The packages \<open>main\<close> calls are not part of \<open>main.go\<close>; what they answer is a
  parameter of the run. An error is its message; \<open>None\<close> is \<open>err == nil\<close>.
  \<^item> \<open>Build\<close>: \<open>zap.Config.Build\<close>;
  \<^item> \<open>NewStore\<close>: \<open>libkv.NewStore\<close> on the list of hosts;
  \<^item> \<open>NewManager\<close>: whether \<open>plugin.NewManager\<close> hands back a non-nil manager;
  \<^item> \<open>Connect\<close>: \<open>pluginManager.Connect\<close> for the plugin paths;
  \<^item> \<open>guard_triggered\<close>: whether the shutdown guard is ever triggered, that is,
    whether \<open>shutdownGuard.Wait()\<close> returns.
  The remaining calls (\<open>EmbedEtcd\<close>, \<open>router.New\<close>, \<open>StartWorkers\<close>, the two
  \<open>Start...API\<close>, \<open>Drain\<close>, \<open>Kill\<close>) return no value to \<open>main\<close> and are
  recorded as actions.
\<close>

record world =
  Build :: "Config \<Rightarrow> string option"
  NewStore :: "string list \<Rightarrow> string option"
  NewManager :: "string list \<Rightarrow> bool"
  Connect :: "string list \<Rightarrow> string option"
  initial_load_ok :: bool
  guard_triggered :: bool

text \<open>
  Modelled from the spec: \<open>cache.NewTarget\<close> (package \<open>internal/cache\<close>, whose
  source is missing). It returns no error to \<open>main\<close>; the spec says that "if the initial full
  load fails, cache construction fails fatally (the gateway cannot start without a base
  configuration)". \<open>initial_load_ok\<close> says whether that load succeeds; when it does not,
  the process ends inside the call.
\<close>

definition NewTarget_fatal :: "world \<Rightarrow> bool" where
  "NewTarget_fatal w = (\<not> initial_load_ok w)"

record httpapi_Config =
  TLSCrt :: string
  TLSKey :: string
  Port :: nat

datatype action =
    Printf_version string
  | ZapBuild Config
  | NewShutdownGuard
  | EmbedEtcd string string string
  | LibkvNewStore "string list"
  | LogFatal string string
  | PluginNewManager "string list"
  | PluginConnect
  | CacheNewTarget string
  | RouterNew
  | StartWorkers
  | StartEventsAPI httpapi_Config
  | StartConfigAPI httpapi_Config
  | LogInfo_dev string nat string nat
  | GuardWait
  | RouterDrain
  | PluginKill
  | StoreClose
  | LogSync

text \<open>
  How a run of \<open>main\<close> ends: \<open>os.Exit\<close> with a code, a panic with the error, a fatal
  log entry (zap's \<open>Fatal\<close> writes the entry and ends the process), blocked for ever in
  \<open>Wait()\<close>, or a return from \<open>main\<close>.
\<close>

datatype outcome =
    Exited int
  | Panicked string
  | Fatal
  | Blocked
  | Returned

definition version :: string where
  "version = ''dev''"

text \<open>\<open>strings.Split(s, ",")\<close> for a one-byte separator: the empty string gives \<open>[""]\<close>.\<close>

fun Split :: "string \<Rightarrow> char \<Rightarrow> string list" where
  "Split [] sep = [[]]"
| "Split (c # cs) sep =
     (if c = sep then [] # Split cs sep
      else (case Split cs sep of
              [] \<Rightarrow> [[c]]
            | w # ws \<Rightarrow> (c # w) # ws))"

definition proto :: "string \<Rightarrow> string \<Rightarrow> string" where
  "proto crt key = (if crt \<noteq> '''' \<and> key \<noteq> '''' then ''https'' else ''http'')"

text \<open>
  The actions after \<open>Wait()\<close> has returned: \<open>router.Drain()\<close>, \<open>pluginManager.Kill()\<close>
  under its nil check, and the deferred \<open>log.Sync()\<close> as \<open>main\<close> returns.
\<close>

definition shutdown_actions :: "flags \<Rightarrow> world \<Rightarrow> action list" where
  "shutdown_actions f w =
     [RouterDrain] @ (if NewManager w (plugins f) then [PluginKill] else []) @ [LogSync]"

text \<open>The actions from \<open>router.New\<close> to the call of \<open>Wait()\<close>.\<close>

definition serve_actions :: "flags \<Rightarrow> action list" where
  "serve_actions f =
     [RouterNew, StartWorkers,
      StartEventsAPI \<lparr> TLSCrt = eventsTLSCrt f, TLSKey = eventsTLSKey f, Port = eventsPort f \<rparr>,
      StartConfigAPI \<lparr> TLSCrt = configTLSCrt f, TLSKey = configTLSKey f, Port = configPort f \<rparr>]
     @ (if developmentMode f
        then [LogInfo_dev (proto (eventsTLSCrt f) (eventsTLSKey f)) (eventsPort f)
                          (proto (configTLSCrt f) (configTLSKey f)) (configPort f)]
        else [])
     @ [GuardWait]"

text \<open>The actions from a built logger to the call of \<open>libkv.NewStore\<close>.\<close>

definition store_actions :: "flags \<Rightarrow> action list" where
  "store_actions f =
     [ZapBuild (logger (developmentMode f) (logLevel f) (logFormat f)), NewShutdownGuard]
     @ (if developmentMode f
        then [EmbedEtcd (embedDataDir f) (embedPeerAddr f) (embedCliAddr f)] else [])
     @ [LibkvNewStore (Split (dbHosts f) (CHR '',''))]"

definition main :: "flags \<Rightarrow> world \<Rightarrow> action list \<times> outcome" where
  "main f w =
    (if showVersion f then ([Printf_version version], Exited 0)
     else
       (case Build w (logger (developmentMode f) (logLevel f) (logFormat f)) of
          Some err \<Rightarrow>
            ([ZapBuild (logger (developmentMode f) (logLevel f) (logFormat f))], Panicked err)
        | None \<Rightarrow>
          (case NewStore w (Split (dbHosts f) (CHR '','')) of
             Some err \<Rightarrow>
               (store_actions f @ [LogFatal ''Cannot create KV client.'' err], Fatal)
           | None \<Rightarrow>
             (case Connect w (plugins f) of
                Some err \<Rightarrow>
                  (store_actions f @ [PluginNewManager (plugins f), PluginConnect,
                                      LogFatal ''Loading plugins failed.'' err], Fatal)
              | None \<Rightarrow>
                  (if NewTarget_fatal w
                   then (store_actions f @ [PluginNewManager (plugins f), PluginConnect,
                                            CacheNewTarget ''/serverless-event-gateway''], Fatal)
                   else if \<not> guard_triggered w
                   then (store_actions f @ [PluginNewManager (plugins f), PluginConnect,
                                            CacheNewTarget ''/serverless-event-gateway'']
                         @ serve_actions f, Blocked)
                   else (store_actions f @ [PluginNewManager (plugins f), PluginConnect,
                                            CacheNewTarget ''/serverless-event-gateway'']
                         @ serve_actions f @ shutdown_actions f w, Returned))))))"

text \<open>
  Positions in a run: \<open>first_pos P tr\<close> is the index of the first action satisfying
  \<open>P\<close>, and \<open>precedes P Q tr\<close> says that both kinds of action occur and the first
  \<open>P\<close> comes strictly before the first \<open>Q\<close>.
\<close>

fun first_pos :: "(action \<Rightarrow> bool) \<Rightarrow> action list \<Rightarrow> nat option" where
  "first_pos P [] = None"
| "first_pos P (a # as) =
     (if P a then Some 0 else map_option Suc (first_pos P as))"

definition precedes :: "(action \<Rightarrow> bool) \<Rightarrow> (action \<Rightarrow> bool) \<Rightarrow> action list \<Rightarrow> bool" where
  "precedes P Q tr =
     (case (first_pos P tr, first_pos Q tr) of
        (Some i, Some j) \<Rightarrow> i < j
      | _ \<Rightarrow> False)"

fun is_StartEventsAPI :: "action \<Rightarrow> bool" where
  "is_StartEventsAPI (StartEventsAPI c) = True"
| "is_StartEventsAPI _ = False"

fun is_StartConfigAPI :: "action \<Rightarrow> bool" where
  "is_StartConfigAPI (StartConfigAPI c) = True"
| "is_StartConfigAPI _ = False"

text \<open>A run serves when it starts the workers or one of the two HTTP APIs.\<close>

definition serves :: "action list \<Rightarrow> bool" where
  "serves tr = (list_ex (\<lambda>a. a = StartWorkers \<or> is_StartEventsAPI a \<or> is_StartConfigAPI a) tr)"

section \<open>Router, Target Cache and Plugin Pipeline\<close>

text \<open>
  Modelled from the spec: the packages \<open>router\<close>, \<open>internal/cache\<close> and \<open>plugin\<close>,
  whose sources are missing; \<open>main.go\<close> only calls them. The types and definitions of
  this section follow the spec (sections 3, 4.1 to 4.3) for one caller at a time: what a
  dispatch returns to its caller and what it leaves in the router's state. The workers
  that consume the queue are not part of the model.
\<close>

datatype mode = Sync | Async

record Event =
  event_type :: string
  event_path :: string
  event_method :: string
  payload :: string

record Subscription =
  sub_id :: string
  sub_path :: string
  sub_method :: string
  sub_event_type :: string
  target :: string
  sub_mode :: mode

record Job =
  job_event :: Event
  job_sub :: Subscription
  enqueued_at :: nat

datatype dispatch_error =
    BadRequest
  | NotFound
  | Rejected string
  | PluginError
  | TargetError string

datatype response = Ack | Reply string

datatype 'a hook_result = Continue 'a | Reject string | HookError string

record Plugin =
  plugin_name :: string
  PreDispatch :: "Subscription list \<Rightarrow> Event \<Rightarrow> Event hook_result"
  PostDispatch :: "Event \<Rightarrow> Subscription list \<Rightarrow> string \<Rightarrow> string hook_result"

text \<open>
  The router: its configuration (the cache's snapshot as the ordered list of
  subscriptions, the registered plugins in registration order, the envelope check, the
  outbound call to a target and the queue's capacity) and its state (the queue, the
  dropped-event counter, the log of target invocations on the sync path and the log of
  hooks that ran).
\<close>

record Router =
  snapshot :: "Subscription list"
  registry :: "Plugin list"
  valid_envelope :: "Event \<Rightarrow> bool"
  invoke :: "string \<Rightarrow> Event \<Rightarrow> string + string"
  capacity :: nat
  queue :: "Job list"
  dropped :: nat
  invoked :: "(string \<times> Event) list"
  hooks_run :: "string list"

text \<open>
  Modelled from the spec: \<open>MatchSubscriptions(eventType, path, method)\<close> of the Target
  Cache, "returns all subscriptions whose matcher is satisfied; ordering is
  insertion/registration order". The matcher is equality on the three attributes.
\<close>

definition MatchSubscriptions ::
  "Subscription list \<Rightarrow> string \<Rightarrow> string \<Rightarrow> string \<Rightarrow> Subscription list" where
  "MatchSubscriptions snap ty p m =
     filter (\<lambda>s. sub_event_type s = ty \<and> sub_path s = p \<and> sub_method s = m) snap"

text \<open>
  Modelled from the spec: the Plugin Pipeline of section 4.3. "Multiple plugins run in
  registration order; the first reject/error short-circuits remaining hooks for that
  phase"; an error is "treated as reject with a generic error". The result carries the
  names of the hooks that ran, in the order they ran.
\<close>

fun run_hooks ::
  "(string \<times> ('a \<Rightarrow> 'a hook_result)) list \<Rightarrow> 'a \<Rightarrow> string list \<times> (dispatch_error + 'a)" where
  "run_hooks [] x = ([], Inr x)"
| "run_hooks ((n, h) # hs) x =
     (case h x of
        Continue y \<Rightarrow> (case run_hooks hs y of (ns, res) \<Rightarrow> (n # ns, res))
      | Reject reason \<Rightarrow> ([n], Inl (Rejected reason))
      | HookError detail \<Rightarrow> ([n], Inl PluginError))"

definition pre_hooks ::
  "Plugin list \<Rightarrow> Subscription list \<Rightarrow> (string \<times> (Event \<Rightarrow> Event hook_result)) list" where
  "pre_hooks ps subs = map (\<lambda>p. (plugin_name p, PreDispatch p subs)) ps"

definition post_hooks ::
  "Plugin list \<Rightarrow> Event \<Rightarrow> Subscription list \<Rightarrow> (string \<times> (string \<Rightarrow> string hook_result)) list" where
  "post_hooks ps ev subs = map (\<lambda>p. (plugin_name p, PostDispatch p ev subs)) ps"

text \<open>
  Modelled from the spec: the non-blocking enqueue of section 4.2. "If the queue is
  full, the job is dropped immediately (never blocks the producer), a dropped event
  counter is incremented".
\<close>

definition enqueue :: "Router \<Rightarrow> Job \<Rightarrow> Router" where
  "enqueue r j =
     (if length (queue r) < capacity r
      then r\<lparr> queue := queue r @ [j] \<rparr>
      else r\<lparr> dropped := dropped r + 1 \<rparr>)"

text \<open>
  Modelled from the spec: the state machine per inbound event of section 4.2. The
  caller says whether the call is a direct invocation (\<open>Sync\<close>) or a published event
  (\<open>Async\<close>); the subscriptions of that delivery mode among the cache's matches are the
  matched set. A sync dispatch calls the target of the first matched subscription.
\<close>

definition matched :: "Router \<Rightarrow> mode \<Rightarrow> Event \<Rightarrow> Subscription list" where
  "matched r m ev =
     filter (\<lambda>s. sub_mode s = m)
       (MatchSubscriptions (snapshot r) (event_type ev) (event_path ev) (event_method ev))"

definition dispatch_async :: "Router \<Rightarrow> nat \<Rightarrow> Event \<Rightarrow> Subscription list \<Rightarrow> Router" where
  "dispatch_async r now ev subs =
     foldl enqueue r (map (\<lambda>s. \<lparr> job_event = ev, job_sub = s, enqueued_at = now \<rparr>) subs)"

definition dispatch_sync ::
  "Router \<Rightarrow> Event \<Rightarrow> Subscription list \<Rightarrow> (dispatch_error + response) \<times> Router" where
  "dispatch_sync r ev subs =
     (case subs of
        [] \<Rightarrow> (Inl NotFound, r)
      | s # rest \<Rightarrow>
          (let r1 = r\<lparr> invoked := invoked r @ [(target s, ev)] \<rparr> in
           case invoke r (target s) ev of
             Inl e \<Rightarrow> (Inl (TargetError e), r1)
           | Inr resp \<Rightarrow>
               (case run_hooks (post_hooks (registry r) ev subs) resp of
                  (ns, Inl e) \<Rightarrow> (Inl e, r1\<lparr> hooks_run := hooks_run r1 @ ns \<rparr>)
                | (ns, Inr resp') \<Rightarrow>
                    (Inr (Reply resp'), r1\<lparr> hooks_run := hooks_run r1 @ ns \<rparr>))))"

definition Dispatch ::
  "Router \<Rightarrow> mode \<Rightarrow> nat \<Rightarrow> Event \<Rightarrow> (dispatch_error + response) \<times> Router" where
  "Dispatch r m now ev =
     (if \<not> valid_envelope r ev then (Inl BadRequest, r)
      else if matched r m ev = []
      then (case m of Sync \<Rightarrow> (Inl NotFound, r) | Async \<Rightarrow> (Inr Ack, r))
      else
        (case run_hooks (pre_hooks (registry r) (matched r m ev)) ev of
           (ns, Inl e) \<Rightarrow> (Inl e, r\<lparr> hooks_run := hooks_run r @ ns \<rparr>)
         | (ns, Inr ev') \<Rightarrow>
             (case m of
                Sync \<Rightarrow> dispatch_sync (r\<lparr> hooks_run := hooks_run r @ ns \<rparr>) ev' (matched r m ev)
              | Async \<Rightarrow>
                  (Inr Ack,
                   dispatch_async (r\<lparr> hooks_run := hooks_run r @ ns \<rparr>) now ev'
                     (matched r m ev)))))"

section \<open>Example inputs\<close>

text \<open>
  The flags as \<open>main\<close> declares their defaults, and a run in which every package
  answers without error: \<open>Build\<close> accepts the two encodings zap registers, the store
  and the plugins connect, the cache loads and the shutdown guard is triggered.
\<close>

definition default_flags :: flags where
  "default_flags =
     \<lparr> showVersion = False, logLevel = 0, logFormat = '''',
       dbHosts = ''127.0.0.1:2379'', developmentMode = False,
       embedPeerAddr = ''http://127.0.0.1:2380'',
       embedCliAddr = ''http://127.0.0.1:2379'',
       embedDataDir = ''default.etcd'',
       configPort = 4001, configTLSCrt = '''', configTLSKey = '''',
       eventsPort = 4000, eventsTLSCrt = '''', eventsTLSKey = '''',
       plugins = [] \<rparr>"

definition world_up :: world where
  "world_up =
     \<lparr> Build = (\<lambda>cfg. if Encoding cfg = ''console'' \<or> Encoding cfg = ''json'' then None
                       else Some ''no encoder registered''),
       NewStore = (\<lambda>hosts. None),
       NewManager = (\<lambda>ps. True),
       Connect = (\<lambda>ps. None),
       initial_load_ok = True,
       guard_triggered = True \<rparr>"

text \<open>
  The order in which a run would release the store client after the drain:
  \<open>router.Drain()\<close> occurs, the store's \<open>Close()\<close> occurs, and the drain comes first.
\<close>

definition drain_then_close :: "action list \<Rightarrow> bool" where
  "drain_then_close tr = precedes (\<lambda>a. a = RouterDrain) (\<lambda>a. a = StoreClose) tr"

text \<open>
  A router for the scenarios of the spec's section 8: one sync subscription for
  \<open>user.created\<close> on \<open>POST /foo\<close>, two async subscriptions for \<open>user.signup\<close>, a
  plugin that lets every event pass and a plugin that rejects with "rate limited".
\<close>

definition fnA_sub :: Subscription where
  "fnA_sub = \<lparr> sub_id = ''s1'', sub_path = ''/foo'', sub_method = ''POST'',
               sub_event_type = ''user.created'', target = ''fnA'', sub_mode = Sync \<rparr>"

definition fnB_sub :: Subscription where
  "fnB_sub = \<lparr> sub_id = ''s2'', sub_path = ''/'', sub_method = ''POST'',
               sub_event_type = ''user.signup'', target = ''fnB'', sub_mode = Async \<rparr>"

definition fnC_sub :: Subscription where
  "fnC_sub = \<lparr> sub_id = ''s3'', sub_path = ''/'', sub_method = ''POST'',
               sub_event_type = ''user.signup'', target = ''fnC'', sub_mode = Async \<rparr>"


definition deleted_event :: Event where
  "deleted_event = \<lparr> event_type = ''user.deleted'', event_path = ''/foo'',
                     event_method = ''POST'', payload = ''{}'' \<rparr>"

definition signup_event :: Event where
  "signup_event = \<lparr> event_type = ''user.signup'', event_path = ''/'',
                    event_method = ''POST'', payload = ''{}'' \<rparr>"

definition audit_plugin :: Plugin where
  "audit_plugin = \<lparr> plugin_name = ''audit'',
                    PreDispatch = (\<lambda>subs ev. Continue ev),
                    PostDispatch = (\<lambda>ev subs resp. Continue resp) \<rparr>"


definition example_router :: Router where
  "example_router =
     \<lparr> snapshot = [fnA_sub, fnB_sub, fnC_sub],
       registry = [audit_plugin],
       valid_envelope = (\<lambda>ev. event_type ev \<noteq> []),
       invoke = (\<lambda>fn ev. Inr (fn @ payload ev)),
       capacity = 1,
       queue = [],
       dropped = 0,
       invoked = [],
       hooks_run = [] \<rparr>"

definition example_job :: "Subscription \<Rightarrow> Job" where
  "example_job s = \<lparr> job_event = signup_event, job_sub = s, enqueued_at = 0 \<rparr>"

section \<open>What \<open>main\<close> does\<close>

lemma first_pos_append:
  "first_pos P (xs @ ys) =
     (case first_pos P xs of
        Some i \<Rightarrow> Some i
      | None \<Rightarrow> map_option (\<lambda>j. length xs + j) (first_pos P ys))"
proof (induction xs)
  case Nil
  show ?case by (cases "first_pos P ys") simp_all
next
  case (Cons a xs)
  then show ?case
    by (cases "first_pos P ys"; cases "first_pos P xs"; simp)
qed

lemma first_pos_None: "first_pos P xs = None \<longleftrightarrow> \<not> list_ex P xs"
  by (induction xs) auto

lemma store_actions_no_serve: "\<not> serves (store_actions f)"
  by (simp add: serves_def store_actions_def)

lemma serves_Cons:
  "serves (a # as) \<longleftrightarrow> a = StartWorkers \<or> is_StartEventsAPI a \<or> is_StartConfigAPI a \<or> serves as"
  by (simp add: serves_def)

lemma serves_Nil: "\<not> serves []"
  by (simp add: serves_def)

lemma serves_append: "serves (xs @ ys) \<longleftrightarrow> serves xs \<or> serves ys"
  by (simp add: serves_def list_ex_iff) blast

text \<open>
  C10: for every call \<open>logger dev level format\<close>, the format \<open>text\<close> gives the console
  encoding; \<open>json\<close> gives the json encoding with the production encoder configuration;
  the empty format gives console when \<open>dev\<close> holds and json otherwise; any other format
  gives the empty encoding, and then, \<open>Build\<close> rejecting a configuration with no
  encoding name, \<open>main\<close> panics right after the call of \<open>Build\<close>.
\<close>

theorem logger_encoding:
  "Encoding (logger dev lvl ''text'') = ''console''
   \<and> Encoding (logger dev lvl ''json'') = ''json''
   \<and> EncoderConfig (logger dev lvl ''json'') = ProductionEncoderConfig
   \<and> Encoding (logger dev lvl '''') = (if dev then ''console'' else ''json'')
   \<and> (format \<noteq> '''' \<and> format \<noteq> ''text'' \<and> format \<noteq> ''json'' \<longrightarrow>
        Encoding (logger dev lvl format) = ''''
        \<and> (\<forall>f w. \<not> showVersion f \<and> developmentMode f = dev \<and> logLevel f = lvl
                  \<and> logFormat f = format
                  \<and> (\<forall>cfg. Encoding cfg = '''' \<longrightarrow> Build w cfg \<noteq> None)
              \<longrightarrow> (\<exists>e. main f w = ([ZapBuild (logger dev lvl format)], Panicked e))))"
proof -
  have enc: "Encoding (logger dev lvl format) = ''''"
    if "format \<noteq> ''''" "format \<noteq> ''text''" "format \<noteq> ''json''"
    using that by (simp add: logger_def consoleEncoding_def jsonEncoding_def Let_def)
  have pan: "\<exists>e. main f w = ([ZapBuild (logger dev lvl format)], Panicked e)"
    if "format \<noteq> ''''" "format \<noteq> ''text''" "format \<noteq> ''json''"
      and "\<not> showVersion f" "developmentMode f = dev" "logLevel f = lvl" "logFormat f = format"
      and b: "\<forall>cfg. Encoding cfg = '''' \<longrightarrow> Build w cfg \<noteq> None"
    for f w
  proof -
    from b enc that(1-3) obtain e where "Build w (logger dev lvl format) = Some e"
      by blast
    with that show ?thesis by (simp add: main_def)
  qed
  have a: "Encoding (logger dev lvl ''text'') = ''console''"
    by (simp add: logger_def consoleEncoding_def jsonEncoding_def Let_def)
  have b: "Encoding (logger dev lvl ''json'') = ''json''"
    by (simp add: logger_def consoleEncoding_def jsonEncoding_def Let_def)
  have c: "EncoderConfig (logger dev lvl ''json'') = ProductionEncoderConfig"
    by (simp add: logger_def consoleEncoding_def jsonEncoding_def Let_def)
  have d: "Encoding (logger dev lvl '''') = (if dev then ''console'' else ''json'')"
    by (simp add: logger_def consoleEncoding_def jsonEncoding_def Let_def)
  from a b c d enc pan show ?thesis by blast
qed

theorem logger_encoding_witness:
  "Encoding (logger False 0 ''yaml'') = ''''
   \<and> (\<exists>e. main (default_flags\<lparr> logFormat := ''yaml'' \<rparr>) world_up
            = ([ZapBuild (logger False 0 ''yaml'')], Panicked e))"
proof -
  let ?f = "default_flags\<lparr> logFormat := ''yaml'' \<rparr>"
  have fmt: "''yaml'' \<noteq> '''' \<and> ''yaml'' \<noteq> ''text'' \<and> ''yaml'' \<noteq> ''json''"
    by simp
  have hyp: "\<not> showVersion ?f \<and> developmentMode ?f = False \<and> logLevel ?f = 0
             \<and> logFormat ?f = ''yaml''
             \<and> (\<forall>cfg. Encoding cfg = '''' \<longrightarrow> Build world_up cfg \<noteq> None)"
    by (simp add: default_flags_def world_up_def)
  from logger_encoding [of False 0 "''yaml''"] fmt
  have *: "Encoding (logger False 0 ''yaml'') = ''''
        \<and> (\<forall>f w. \<not> showVersion f \<and> developmentMode f = False \<and> logLevel f = 0
                  \<and> logFormat f = ''yaml''
                  \<and> (\<forall>cfg. Encoding cfg = '''' \<longrightarrow> Build w cfg \<noteq> None)
              \<longrightarrow> (\<exists>e. main f w = ([ZapBuild (logger False 0 ''yaml'')], Panicked e)))"
    by blast
  from * hyp show ?thesis by blast
qed



lemma main_store_err:
  assumes "\<not> showVersion f"
    and "Build w (logger (developmentMode f) (logLevel f) (logFormat f)) = None"
    and "NewStore w (Split (dbHosts f) (CHR '','')) = Some e"
  shows "main f w = (store_actions f @ [LogFatal ''Cannot create KV client.'' e], Fatal)"
  using assms by (simp add: main_def)

lemma main_connect_err:
  assumes "\<not> showVersion f"
    and "Build w (logger (developmentMode f) (logLevel f) (logFormat f)) = None"
    and "NewStore w (Split (dbHosts f) (CHR '','')) = None"
    and "Connect w (plugins f) = Some e"
  shows "main f w = (store_actions f @ [PluginNewManager (plugins f), PluginConnect,
                                       LogFatal ''Loading plugins failed.'' e], Fatal)"
  using assms by (simp add: main_def)

lemma main_load_err:
  assumes "\<not> showVersion f"
    and "Build w (logger (developmentMode f) (logLevel f) (logFormat f)) = None"
    and "NewStore w (Split (dbHosts f) (CHR '','')) = None"
    and "Connect w (plugins f) = None"
    and "\<not> initial_load_ok w"
  shows "main f w = (store_actions f @ [PluginNewManager (plugins f), PluginConnect,
                                       CacheNewTarget ''/serverless-event-gateway''], Fatal)"
  using assms by (simp add: main_def NewTarget_fatal_def)

lemma main_blocked:
  assumes "\<not> showVersion f"
    and "Build w (logger (developmentMode f) (logLevel f) (logFormat f)) = None"
    and "NewStore w (Split (dbHosts f) (CHR '','')) = None"
    and "Connect w (plugins f) = None"
    and "initial_load_ok w"
    and "\<not> guard_triggered w"
  shows "main f w = (store_actions f @ [PluginNewManager (plugins f), PluginConnect,
                                       CacheNewTarget ''/serverless-event-gateway'']
                     @ serve_actions f, Blocked)"
  using assms by (simp add: main_def NewTarget_fatal_def)

lemma main_returned:
  assumes "\<not> showVersion f"
    and "Build w (logger (developmentMode f) (logLevel f) (logFormat f)) = None"
    and "NewStore w (Split (dbHosts f) (CHR '','')) = None"
    and "Connect w (plugins f) = None"
    and "initial_load_ok w"
    and "guard_triggered w"
  shows "main f w = (store_actions f @ [PluginNewManager (plugins f), PluginConnect,
                                       CacheNewTarget ''/serverless-event-gateway'']
                     @ serve_actions f @ shutdown_actions f w, Returned)"
  using assms by (simp add: main_def NewTarget_fatal_def)

lemma no_serve_store_err: "\<not> serves (store_actions f @ [LogFatal m e])"
  by (simp add: serves_append store_actions_no_serve serves_Cons serves_Nil)

lemma no_serve_connect_err:
  "\<not> serves (store_actions f @ [PluginNewManager ps, PluginConnect, LogFatal m e])"
  by (simp add: serves_append store_actions_no_serve serves_Cons serves_Nil)

lemma no_serve_load_err:
  "\<not> serves (store_actions f @ [PluginNewManager ps, PluginConnect, CacheNewTarget p])"
  by (simp add: serves_append store_actions_no_serve serves_Cons serves_Nil)

text \<open>
  C5: when the run reaches the store (no \<open>-version\<close>, the logger is built) and the KV
  client cannot be created or the cache's initial load fails, the run ends fatally and
  neither the workers nor an HTTP API are started; when it is the KV client that fails,
  the last action is the fatal log entry "Cannot create KV client.".
\<close>

theorem store_unreachable_fatal:
  assumes v: "\<not> showVersion f"
    and b: "Build w (logger (developmentMode f) (logLevel f) (logFormat f)) = None"
    and u: "NewStore w (Split (dbHosts f) (CHR '','')) \<noteq> None \<or> \<not> initial_load_ok w"
  shows "snd (main f w) = Fatal \<and> \<not> serves (fst (main f w))
         \<and> (\<forall>e. NewStore w (Split (dbHosts f) (CHR '','')) = Some e \<longrightarrow>
               main f w = (store_actions f @ [LogFatal ''Cannot create KV client.'' e], Fatal))"
proof (cases "NewStore w (Split (dbHosts f) (CHR '',''))")
  case (Some e)
  from main_store_err [OF v b Some] show ?thesis
    using Some by (simp add: no_serve_store_err)
next
  case None
  with u have l: "\<not> initial_load_ok w" by simp
  show ?thesis
  proof (cases "Connect w (plugins f)")
    case (Some e)
    from main_connect_err [OF v b None Some] show ?thesis
      using None by (simp add: no_serve_connect_err)
  next
    case c: None
    from main_load_err [OF v b None c l] show ?thesis
      using None by (simp add: no_serve_load_err)
  qed
qed

text \<open>
  C8: when \<open>pluginManager.Connect()\<close> returns an error, the run logs
  "Loading plugins failed." fatally and ends there: neither the router's workers nor
  one of the two HTTP APIs are started.
\<close>

theorem plugin_connect_fatal:
  assumes "\<not> showVersion f"
    and "Build w (logger (developmentMode f) (logLevel f) (logFormat f)) = None"
    and "NewStore w (Split (dbHosts f) (CHR '','')) = None"
    and "Connect w (plugins f) = Some e"
  shows "main f w = (store_actions f @ [PluginNewManager (plugins f), PluginConnect,
                                       LogFatal ''Loading plugins failed.'' e], Fatal)
         \<and> \<not> serves (fst (main f w))"
  using main_connect_err [OF assms] by (simp add: no_serve_connect_err)


lemma Build_world_up_default:
  "Build world_up (logger (developmentMode default_flags) (logLevel default_flags)
                          (logFormat default_flags)) = None"
  by (simp add: world_up_def default_flags_def logger_def consoleEncoding_def jsonEncoding_def
        Let_def)

theorem store_unreachable_fatal_witness:
  "snd (main default_flags (world_up\<lparr> NewStore := (\<lambda>hosts. Some ''unreachable'') \<rparr>)) = Fatal
   \<and> \<not> serves (fst (main default_flags
                        (world_up\<lparr> NewStore := (\<lambda>hosts. Some ''unreachable'') \<rparr>)))
   \<and> snd (main default_flags (world_up\<lparr> initial_load_ok := False \<rparr>)) = Fatal
   \<and> \<not> serves (fst (main default_flags (world_up\<lparr> initial_load_ok := False \<rparr>)))"
proof -
  let ?w1 = "world_up\<lparr> NewStore := (\<lambda>hosts. Some ''unreachable'') \<rparr>"
  let ?w2 = "world_up\<lparr> initial_load_ok := False \<rparr>"
  have v: "\<not> showVersion default_flags" by (simp add: default_flags_def)
  have b1: "Build ?w1 (logger (developmentMode default_flags) (logLevel default_flags)
                              (logFormat default_flags)) = None"
    using Build_world_up_default by simp
  have b2: "Build ?w2 (logger (developmentMode default_flags) (logLevel default_flags)
                              (logFormat default_flags)) = None"
    using Build_world_up_default by simp
  have u1: "NewStore ?w1 (Split (dbHosts default_flags) (CHR '','')) \<noteq> None
            \<or> \<not> initial_load_ok ?w1" by simp
  have u2: "NewStore ?w2 (Split (dbHosts default_flags) (CHR '','')) \<noteq> None
            \<or> \<not> initial_load_ok ?w2" by simp
  from store_unreachable_fatal [OF v b1 u1] store_unreachable_fatal [OF v b2 u2]
  show ?thesis by blast
qed

theorem plugin_connect_fatal_witness:
  "main (default_flags\<lparr> plugins := [''./missing-plugin''] \<rparr>)
        (world_up\<lparr> Connect := (\<lambda>ps. if ps = [] then None else Some ''exec failed'') \<rparr>)
   = (store_actions (default_flags\<lparr> plugins := [''./missing-plugin''] \<rparr>)
      @ [PluginNewManager [''./missing-plugin''], PluginConnect,
         LogFatal ''Loading plugins failed.'' ''exec failed''], Fatal)
   \<and> \<not> serves (fst (main (default_flags\<lparr> plugins := [''./missing-plugin''] \<rparr>)
        (world_up\<lparr> Connect := (\<lambda>ps. if ps = [] then None else Some ''exec failed'') \<rparr>)))"
proof -
  let ?f = "default_flags\<lparr> plugins := [''./missing-plugin''] \<rparr>"
  let ?w = "world_up\<lparr> Connect := (\<lambda>ps. if ps = [] then None else Some ''exec failed'') \<rparr>"
  have v: "\<not> showVersion ?f" by (simp add: default_flags_def)
  have b: "Build ?w (logger (developmentMode ?f) (logLevel ?f) (logFormat ?f)) = None"
    using Build_world_up_default by simp
  have s: "NewStore ?w (Split (dbHosts ?f) (CHR '','')) = None"
    by (simp add: world_up_def)
  have c: "Connect ?w (plugins ?f) = Some ''exec failed''" by simp
  have p: "plugins ?f = [''./missing-plugin'']" by simp
  from plugin_connect_fatal [OF v b s c] show ?thesis unfolding p by blast
qed

lemma first_pos_store_actions:
  "first_pos (\<lambda>a. a = StartWorkers) (store_actions f) = None"
  "first_pos is_StartEventsAPI (store_actions f) = None"
  by (simp_all add: store_actions_def)

lemma precedes_serving:
  "precedes (\<lambda>a. a = StartWorkers) is_StartEventsAPI
     (store_actions f @ [PluginNewManager ps, PluginConnect, CacheNewTarget p]
      @ serve_actions f @ rest)"
  by (simp add: precedes_def first_pos_append first_pos_store_actions serve_actions_def)

lemma no_events_api_store_actions: "\<not> list_ex is_StartEventsAPI (store_actions f)"
  by (simp add: store_actions_def)

text \<open>
  C9: in every startup that passes the logger, the store, the plugins and the cache,
  \<open>router.StartWorkers()\<close> is called before the events API is started; and in every
  run that starts the events API at all, the workers were started before it.
\<close>

theorem workers_before_events_api:
  "(\<not> showVersion f
      \<and> Build w (logger (developmentMode f) (logLevel f) (logFormat f)) = None
      \<and> NewStore w (Split (dbHosts f) (CHR '','')) = None
      \<and> Connect w (plugins f) = None
      \<and> initial_load_ok w
    \<longrightarrow> precedes (\<lambda>a. a = StartWorkers) is_StartEventsAPI (fst (main f w)))
   \<and> (list_ex is_StartEventsAPI (fst (main f w))
    \<longrightarrow> precedes (\<lambda>a. a = StartWorkers) is_StartEventsAPI (fst (main f w)))"
proof -
  have started: "precedes (\<lambda>a. a = StartWorkers) is_StartEventsAPI (fst (main f w))"
    if v: "\<not> showVersion f"
      and b: "Build w (logger (developmentMode f) (logLevel f) (logFormat f)) = None"
      and s: "NewStore w (Split (dbHosts f) (CHR '','')) = None"
      and c: "Connect w (plugins f) = None"
      and l: "initial_load_ok w"
  proof (cases "guard_triggered w")
    case True
    show ?thesis
      unfolding main_returned [OF v b s c l True] fst_conv by (rule precedes_serving)
  next
    case False
    show ?thesis
      unfolding main_blocked [OF v b s c l False] fst_conv
      using precedes_serving [of f "plugins f" "''/serverless-event-gateway''" "[]"]
      by simp
  qed
  have occurs: "\<not> showVersion f
      \<and> Build w (logger (developmentMode f) (logLevel f) (logFormat f)) = None
      \<and> NewStore w (Split (dbHosts f) (CHR '','')) = None
      \<and> Connect w (plugins f) = None
      \<and> initial_load_ok w"
    if ex: "list_ex is_StartEventsAPI (fst (main f w))"
  proof -
    have v: "\<not> showVersion f"
      using ex by (auto simp: main_def)
    have b: "Build w (logger (developmentMode f) (logLevel f) (logFormat f)) = None"
    proof (cases "Build w (logger (developmentMode f) (logLevel f) (logFormat f))")
      case (Some e)
      with v ex show ?thesis by (simp add: main_def)
    qed simp
    have s: "NewStore w (Split (dbHosts f) (CHR '','')) = None"
    proof (cases "NewStore w (Split (dbHosts f) (CHR '',''))")
      case (Some e)
      from main_store_err [OF v b Some] ex show ?thesis
        by (simp add: no_events_api_store_actions)
    qed simp
    have c: "Connect w (plugins f) = None"
    proof (cases "Connect w (plugins f)")
      case (Some e)
      from main_connect_err [OF v b s Some] ex show ?thesis
        by (simp add: no_events_api_store_actions)
    qed simp
    have l: "initial_load_ok w"
    proof (rule ccontr)
      assume n: "\<not> initial_load_ok w"
      from main_load_err [OF v b s c n] ex show False
        by (simp add: no_events_api_store_actions)
    qed
    from v b s c l show ?thesis by blast
  qed
  show ?thesis
  proof (intro conjI impI)
    assume "\<not> showVersion f
      \<and> Build w (logger (developmentMode f) (logLevel f) (logFormat f)) = None
      \<and> NewStore w (Split (dbHosts f) (CHR '','')) = None
      \<and> Connect w (plugins f) = None
      \<and> initial_load_ok w"
    then show "precedes (\<lambda>a. a = StartWorkers) is_StartEventsAPI (fst (main f w))"
      using started by simp
  next
    assume "list_ex is_StartEventsAPI (fst (main f w))"
    from occurs [OF this]
    show "precedes (\<lambda>a. a = StartWorkers) is_StartEventsAPI (fst (main f w))"
      using started by simp
  qed
qed

theorem workers_before_events_api_witness:
  "list_ex is_StartEventsAPI (fst (main default_flags world_up))
   \<and> precedes (\<lambda>a. a = StartWorkers) is_StartEventsAPI (fst (main default_flags world_up))"
proof -
  have v: "\<not> showVersion default_flags" by (simp add: default_flags_def)
  have s: "NewStore world_up (Split (dbHosts default_flags) (CHR '','')) = None"
    by (simp add: world_up_def)
  have c: "Connect world_up (plugins default_flags) = None" by (simp add: world_up_def)
  have l: "initial_load_ok world_up" by (simp add: world_up_def)
  have g: "guard_triggered world_up" by (simp add: world_up_def)
  have ex: "list_ex is_StartEventsAPI (fst (main default_flags world_up))"
    using main_returned [OF v Build_world_up_default s c l g]
    by (simp add: serve_actions_def)
  with workers_before_events_api [of default_flags world_up] show ?thesis by simp
qed


lemma serve_actions_split:
  "\<exists>as. serve_actions f = as @ [GuardWait]
        \<and> GuardWait \<notin> set as \<and> RouterDrain \<notin> set as \<and> PluginKill \<notin> set as
        \<and> LogSync \<notin> set as \<and> StoreClose \<notin> set as"
  by (simp add: serve_actions_def)

lemma store_actions_quiet:
  "GuardWait \<notin> set (store_actions f)" "RouterDrain \<notin> set (store_actions f)"
  "PluginKill \<notin> set (store_actions f)" "LogSync \<notin> set (store_actions f)"
  "StoreClose \<notin> set (store_actions f)"
  by (simp_all add: store_actions_def)

lemma shutdown_actions_no_close: "StoreClose \<notin> set (shutdown_actions f w)"
  by (simp add: shutdown_actions_def)

text \<open>
  C3, as amended: in every run that passes startup, once the shutdown guard is triggered
  \<open>Wait()\<close> returns once, then \<open>main\<close> calls \<open>router.Drain()\<close>, then
  \<open>pluginManager.Kill()\<close> when the manager is not nil, then the deferred
  \<open>log.Sync()\<close> runs and \<open>main\<close> returns; while the guard is not triggered the run
  stays blocked in \<open>Wait()\<close> and calls neither \<open>Drain\<close> nor \<open>Kill\<close>; and
  \<open>main\<close> never closes the store client.
\<close>

theorem shutdown_sequence:
  assumes v: "\<not> showVersion f"
    and b: "Build w (logger (developmentMode f) (logLevel f) (logFormat f)) = None"
    and s: "NewStore w (Split (dbHosts f) (CHR '','')) = None"
    and c: "Connect w (plugins f) = None"
    and l: "initial_load_ok w"
  shows "(guard_triggered w \<longrightarrow>
            (\<exists>pre. main f w =
                     (pre @ [GuardWait, RouterDrain]
                          @ (if NewManager w (plugins f) then [PluginKill] else [])
                          @ [LogSync], Returned)
                  \<and> GuardWait \<notin> set pre \<and> RouterDrain \<notin> set pre
                  \<and> PluginKill \<notin> set pre \<and> LogSync \<notin> set pre))
         \<and> (\<not> guard_triggered w \<longrightarrow>
               snd (main f w) = Blocked
               \<and> RouterDrain \<notin> set (fst (main f w))
               \<and> PluginKill \<notin> set (fst (main f w)))
         \<and> StoreClose \<notin> set (fst (main f w))"
proof -
  obtain as where as: "serve_actions f = as @ [GuardWait]"
    and q: "GuardWait \<notin> set as" "RouterDrain \<notin> set as" "PluginKill \<notin> set as"
           "LogSync \<notin> set as" "StoreClose \<notin> set as"
    using serve_actions_split by blast
  let ?pre = "store_actions f @ [PluginNewManager (plugins f), PluginConnect,
                                 CacheNewTarget ''/serverless-event-gateway''] @ as"
  have pre: "GuardWait \<notin> set ?pre" "RouterDrain \<notin> set ?pre" "PluginKill \<notin> set ?pre"
            "LogSync \<notin> set ?pre" "StoreClose \<notin> set ?pre"
    using q by (simp_all add: store_actions_quiet)
  show ?thesis
  proof (cases "guard_triggered w")
    case True
    have "main f w = (?pre @ [GuardWait, RouterDrain]
                          @ (if NewManager w (plugins f) then [PluginKill] else [])
                          @ [LogSync], Returned)"
      unfolding main_returned [OF v b s c l True] as shutdown_actions_def by simp
    moreover from this pre(5) have "StoreClose \<notin> set (fst (main f w))" by simp
    ultimately show ?thesis using True pre by blast
  next
    case False
    have m: "main f w = (?pre @ [GuardWait], Blocked)"
      unfolding main_blocked [OF v b s c l False] as by simp
    from m pre False show ?thesis by simp
  qed
qed

theorem shutdown_sequence_witness:
  "main default_flags world_up =
     (store_actions default_flags
      @ [PluginNewManager [], PluginConnect, CacheNewTarget ''/serverless-event-gateway'',
         RouterNew, StartWorkers,
         StartEventsAPI \<lparr> TLSCrt = [], TLSKey = [], Port = 4000 \<rparr>,
         StartConfigAPI \<lparr> TLSCrt = [], TLSKey = [], Port = 4001 \<rparr>]
      @ [GuardWait, RouterDrain, PluginKill, LogSync], Returned)
   \<and> StoreClose \<notin> set (fst (main default_flags world_up))"
proof -
  have v: "\<not> showVersion default_flags" by (simp add: default_flags_def)
  have s: "NewStore world_up (Split (dbHosts default_flags) (CHR '','')) = None"
    by (simp add: world_up_def)
  have c: "Connect world_up (plugins default_flags) = None" by (simp add: world_up_def)
  have l: "initial_load_ok world_up" by (simp add: world_up_def)
  have g: "guard_triggered world_up" by (simp add: world_up_def)
  have n: "NewManager world_up (plugins default_flags)" by (simp add: world_up_def)
  from shutdown_sequence [OF v Build_world_up_default s c l] g n
  obtain pre where m: "main default_flags world_up
                       = (pre @ [GuardWait, RouterDrain] @ [PluginKill] @ [LogSync], Returned)"
    and nc: "StoreClose \<notin> set (fst (main default_flags world_up))"
    by auto
  have "main default_flags world_up =
     (store_actions default_flags
      @ [PluginNewManager [], PluginConnect, CacheNewTarget ''/serverless-event-gateway'',
         RouterNew, StartWorkers,
         StartEventsAPI \<lparr> TLSCrt = [], TLSKey = [], Port = 4000 \<rparr>,
         StartConfigAPI \<lparr> TLSCrt = [], TLSKey = [], Port = 4001 \<rparr>]
      @ [GuardWait, RouterDrain, PluginKill, LogSync], Returned)"
    unfolding main_returned [OF v Build_world_up_default s c l g]
    by (simp add: serve_actions_def shutdown_actions_def default_flags_def world_up_def)
  with nc show ?thesis by simp
qed

text \<open>
  C3 as stated fails: with the default flags and every package answering without error,
  \<open>main\<close> returns and the store client was not released after the drain.
\<close>

theorem store_client_not_released:
  "snd (main default_flags world_up) = Returned
   \<and> \<not> drain_then_close (fst (main default_flags world_up))"
proof -
  have v: "\<not> showVersion default_flags" by (simp add: default_flags_def)
  have s: "NewStore world_up (Split (dbHosts default_flags) (CHR '','')) = None"
    by (simp add: world_up_def)
  have c: "Connect world_up (plugins default_flags) = None" by (simp add: world_up_def)
  have l: "initial_load_ok world_up" by (simp add: world_up_def)
  have g: "guard_triggered world_up" by (simp add: world_up_def)
  have m: "main default_flags world_up =
      (store_actions default_flags
       @ [PluginNewManager (plugins default_flags), PluginConnect,
          CacheNewTarget ''/serverless-event-gateway'']
       @ serve_actions default_flags @ shutdown_actions default_flags world_up, Returned)"
    by (rule main_returned [OF v Build_world_up_default s c l g])
  have "first_pos (\<lambda>a. a = StoreClose) (fst (main default_flags world_up)) = None"
    unfolding m fst_conv first_pos_None
    by (simp add: list_ex_iff store_actions_quiet shutdown_actions_no_close serve_actions_def)
  then show ?thesis
    by (simp add: m drain_then_close_def precedes_def split: option.splits)
qed

section \<open>The router and the hooks\<close>

lemma enqueue_full:
  "capacity r \<le> length (queue r) \<Longrightarrow> enqueue r j = r\<lparr> dropped := dropped r + 1 \<rparr>"
  by (simp add: enqueue_def)

lemma foldl_enqueue_full:
  "capacity r \<le> length (queue r) \<Longrightarrow>
     foldl enqueue r js = r\<lparr> dropped := dropped r + length js \<rparr>"
proof (induction js arbitrary: r)
  case Nil
  show ?case by simp
next
  case (Cons j js)
  let ?r = "r\<lparr> dropped := dropped r + 1 \<rparr>"
  have "capacity ?r \<le> length (queue ?r)" using Cons.prems by simp
  from Cons.IH [OF this] show ?case
    using Cons.prems by (simp add: enqueue_full)
qed

text \<open>
  C1: while the queue is at capacity, an enqueue returns at once with the queue unchanged
  and the dropped-event counter one higher; and an async dispatch that passes the
  envelope check and the pre-dispatch hooks acknowledges success to the publisher, leaves
  the queue as it was and raises the counter by one for each job it had to drop.
\<close>

theorem queue_full_drops:
  assumes full: "capacity r \<le> length (queue r)"
  shows "enqueue r j = r\<lparr> dropped := dropped r + 1 \<rparr>
     \<and> (valid_envelope r ev
          \<and> run_hooks (pre_hooks (registry r) (matched r Async ev)) ev = (ns, Inr ev')
        \<longrightarrow> fst (Dispatch r Async now ev) = Inr Ack
            \<and> queue (snd (Dispatch r Async now ev)) = queue r
            \<and> dropped (snd (Dispatch r Async now ev))
                = dropped r + length (matched r Async ev))"
proof (intro conjI impI)
  show "enqueue r j = r\<lparr> dropped := dropped r + 1 \<rparr>"
    using full by (rule enqueue_full)
next
  assume h: "valid_envelope r ev
          \<and> run_hooks (pre_hooks (registry r) (matched r Async ev)) ev = (ns, Inr ev')"
  let ?r1 = "r\<lparr> hooks_run := hooks_run r @ ns \<rparr>"
  have f1: "capacity ?r1 \<le> length (queue ?r1)" using full by simp
  have d: "Dispatch r Async now ev =
             (if matched r Async ev = [] then (Inr Ack, r)
              else (Inr Ack, dispatch_async ?r1 now ev' (matched r Async ev)))"
    using h by (simp add: Dispatch_def)
  have a: "dispatch_async ?r1 now ev' (matched r Async ev)
             = ?r1\<lparr> dropped := dropped ?r1 + length (matched r Async ev) \<rparr>"
    unfolding dispatch_async_def using foldl_enqueue_full [OF f1] by simp
  show "fst (Dispatch r Async now ev) = Inr Ack" using d by simp
  show "queue (snd (Dispatch r Async now ev)) = queue r" using d a by simp
  show "dropped (snd (Dispatch r Async now ev)) = dropped r + length (matched r Async ev)"
    using d a by simp
qed

text \<open>
  C4: for an inbound event with a valid envelope for which the Target Cache returns no
  matching subscription, a sync dispatch returns \<open>NotFound\<close> and an async dispatch
  returns success; in both cases the router is left unchanged: nothing is enqueued, no
  hook runs and no target is invoked.
\<close>

theorem no_match_dispatch:
  assumes "valid_envelope r ev"
    and "MatchSubscriptions (snapshot r) (event_type ev) (event_path ev) (event_method ev) = []"
  shows "Dispatch r Sync now ev = (Inl NotFound, r)
         \<and> Dispatch r Async now ev = (Inr Ack, r)"
  using assms by (simp add: Dispatch_def matched_def)







lemma matched_signup:
  "matched (example_router\<lparr> queue := q \<rparr>) Async signup_event = [fnB_sub, fnC_sub]"
  by (simp add: matched_def MatchSubscriptions_def example_router_def signup_event_def
        fnA_sub_def fnB_sub_def fnC_sub_def)

theorem queue_full_drops_witness:
  "fst (Dispatch (example_router\<lparr> queue := [example_job fnB_sub] \<rparr>) Async 7 signup_event)
     = Inr Ack
   \<and> queue (snd (Dispatch (example_router\<lparr> queue := [example_job fnB_sub] \<rparr>) Async 7
                    signup_event)) = [example_job fnB_sub]
   \<and> dropped (snd (Dispatch (example_router\<lparr> queue := [example_job fnB_sub] \<rparr>) Async 7
                      signup_event)) = 2"
proof -
  let ?r = "example_router\<lparr> queue := [example_job fnB_sub] \<rparr>"
  have full: "capacity ?r \<le> length (queue ?r)" by (simp add: example_router_def)
  have v: "valid_envelope ?r signup_event"
    by (simp add: example_router_def signup_event_def)
  have h: "run_hooks (pre_hooks (registry ?r) (matched ?r Async signup_event)) signup_event
             = ([''audit''], Inr signup_event)"
    by (simp add: pre_hooks_def example_router_def audit_plugin_def)
  have d: "dropped ?r = 0" by (simp add: example_router_def)
  from queue_full_drops [OF full, of _ signup_event "[''audit'']" signup_event 7] v h
  show ?thesis by (simp add: matched_signup d)
qed

lemma no_match_deleted:
  "MatchSubscriptions (snapshot example_router) (event_type deleted_event)
     (event_path deleted_event) (event_method deleted_event) = []"
  by (simp add: MatchSubscriptions_def example_router_def deleted_event_def
        fnA_sub_def fnB_sub_def fnC_sub_def)

theorem no_match_dispatch_witness:
  "Dispatch example_router Sync 7 deleted_event = (Inl NotFound, example_router)
   \<and> Dispatch example_router Async 7 deleted_event = (Inr Ack, example_router)"
proof -
  have v: "valid_envelope example_router deleted_event"
    by (simp add: example_router_def deleted_event_def)
  from no_match_dispatch [OF v no_match_deleted] show ?thesis .
qed



end
